theory Spec2Isabelle
  imports Main
begin

section \<open>Data model of the call-history panel\<close>

text \<open>
  The upstream records, as the interfaces \<^verbatim>\<open>LivekitEgressInfo\<close> and
  \<^verbatim>\<open>LivekitSession\<close> declare them. An optional field (\<^verbatim>\<open>f?: T\<close>) is an
  \<open>option\<close>, \<open>None\<close> standing for \<^verbatim>\<open>undefined\<close>. The timestamps are whole
  seconds and the counts are whole numbers, so \<^verbatim>\<open>number\<close> is \<open>int\<close> here; a number
  that is \<^verbatim>\<open>NaN\<close>, infinite or fractional is outside the model.
\<close>

record LivekitEgressInfo =
  egress_id :: string
  room_id :: string
  room_name :: string
  status :: string
  started_at :: "int option"
  ended_at :: "int option"
  error_msg :: "string option"

record LivekitSession =
  session_id :: string
  name :: string
  created_at :: int
  last_active :: "int option"
  start_time :: "int option"
  end_time :: "int option"
  duration :: "int option"
  num_participants :: "int option"
  num_active_participants :: "int option"
  egress_info :: "LivekitEgressInfo list option"

text \<open>The union type \<^verbatim>\<open>'available' | 'processing' | 'none' | 'failed'\<close>.\<close>

datatype recordingStatus = available | processing | none | failed

text \<open>
  The view model \<^verbatim>\<open>CallSession\<close>. The fields \<^verbatim>\<open>id\<close> and \<^verbatim>\<open>duration\<close> carry a
  suffix, the first because of HOL's \<open>id\<close>, the second because of the field of the
  same name above.
\<close>

record CallSession =
  id_cs :: string
  roomName :: string
  startTime :: string
  endTime :: string
  duration_cs :: string
  participantCount :: int
  recordingStatus :: recordingStatus

section \<open>Recording status\<close>

text \<open>The \<^verbatim>\<open>switch\<close> over the status code of one egress attempt.\<close>

definition statusOfCode :: "string \<Rightarrow> recordingStatus" where
  "statusOfCode c =
     (if c = ''EGRESS_COMPLETE'' then available
      else if c = ''EGRESS_STARTING'' \<or> c = ''EGRESS_ACTIVE'' \<or> c = ''EGRESS_ENDING''
        then processing
      else if c = ''EGRESS_FAILED'' \<or> c = ''EGRESS_ABORTED'' \<or> c = ''EGRESS_LIMIT_REACHED''
        then failed
      else none)"

text \<open>
  \<^verbatim>\<open>deriveRecordingStatus\<close>: the guard \<^verbatim>\<open>session.egress_info && length > 0\<close>, then the
  element at index \<^verbatim>\<open>length - 1\<close>. The index is in range under the guard.
\<close>

definition deriveRecordingStatus :: "LivekitSession \<Rightarrow> recordingStatus" where
  "deriveRecordingStatus session =
     (case egress_info session of
        None \<Rightarrow> none
      | Some es \<Rightarrow>
          if length es > 0
          then (let latestEgress = es ! (length es - 1) in statusOfCode (status latestEgress))
          else none)"

section \<open>Numbers, dates and decimal strings\<close>

text \<open>
  A \<^verbatim>\<open>Date\<close> holds a time value: a whole number of milliseconds of magnitude at
  most \<open>8.64e15\<close>, or \<^verbatim>\<open>NaN\<close> (an invalid date), here \<open>None\<close>. \<open>TimeClip\<close> is the
  check every \<^verbatim>\<open>Date\<close> constructor applies.
\<close>

definition maxTime :: int where
  "maxTime = 8640000000000000"

definition TimeClip :: "int \<Rightarrow> int option" where
  "TimeClip t = (if \<bar>t\<bar> \<le> maxTime then Some t else None)"

text \<open>
  \<^verbatim>\<open>new Date(s).getTime()\<close> for a string \<^verbatim>\<open>s\<close>. How a string is read is the
  platform's business (\<^verbatim>\<open>Date.parse\<close>), so the reader is a parameter; \<open>None\<close> is
  its \<^verbatim>\<open>NaN\<close>.
\<close>

definition dateOfString :: "(string \<Rightarrow> int option) \<Rightarrow> string \<Rightarrow> int option" where
  "dateOfString parse s = (case parse s of None \<Rightarrow> None | Some t \<Rightarrow> TimeClip t)"

text \<open>
  The difference of two time values is a double. Every whole number up to \<open>2^53\<close> in
  magnitude is a double; beyond it, and below \<open>2^54\<close> (two time values differ by less),
  the doubles are the even numbers and the difference is rounded to the nearest one, a
  tie going to the multiple of four.
\<close>

definition roundEven :: "int \<Rightarrow> int" where
  "roundEven d =
     (if d mod 2 = 0 then d
      else if (d div 2) mod 2 = 0 then 2 * (d div 2) else 2 * (d div 2 + 1))"

definition doubleSub :: "int \<Rightarrow> int \<Rightarrow> int" where
  "doubleSub a b = (let d = a - b in if \<bar>d\<bar> \<le> 2 ^ 53 then d else roundEven d)"

text \<open>What a template literal prints for a whole number that is not negative.\<close>

definition digitChar :: "int \<Rightarrow> char" where
  "digitChar n = ''0123456789'' ! nat n"

function decimal :: "int \<Rightarrow> string" where
  "decimal n = (if n < 10 then [digitChar n] else decimal (n div 10) @ [digitChar (n mod 10)])"
  by pat_completeness auto
termination
  by (relation "measure nat") auto

declare decimal.simps [simp del]

section \<open>Duration formatter\<close>

text \<open>
  \<^verbatim>\<open>formatDuration\<close>. \<^verbatim>\<open>!endIso\<close> holds for \<^verbatim>\<open>undefined\<close> and for the empty
  string. With an invalid date every number of the body is \<^verbatim>\<open>NaN\<close>, both comparisons
  are false and the last template prints \<^verbatim>\<open>NaNm\<close>. On whole numbers below \<open>2^54\<close>
  \<^verbatim>\<open>Math.floor\<close> of the quotient by \<open>3600000\<close> or \<open>60000\<close> is the integer quotient.
\<close>

definition formatDuration :: "(string \<Rightarrow> int option) \<Rightarrow> string \<Rightarrow> string option \<Rightarrow> string" where
  "formatDuration parse startIso endIso =
     (case endIso of
        None \<Rightarrow> ''Ongoing''
      | Some e \<Rightarrow>
          if e = [] then ''Ongoing''
          else
            (case (dateOfString parse startIso, dateOfString parse e) of
               (Some startDate, Some endDate) \<Rightarrow>
                 (let diffMs = doubleSub endDate startDate in
                  if diffMs \<le> 0 then ''0m''
                  else
                    (let hours = diffMs div (1000 * 60 * 60);
                         diffMs2 = diffMs - hours * (1000 * 60 * 60);
                         minutes = diffMs2 div (1000 * 60)
                     in if hours > 0
                        then decimal hours @ ''h '' @ decimal minutes @ ''m''
                        else decimal minutes @ ''m''))
             | _ \<Rightarrow> ''NaNm''))"

section \<open>Writing and reading ISO strings\<close>

text \<open>
  \<^verbatim>\<open>new Date(v)\<close> for a whole number \<^verbatim>\<open>v\<close>, and \<^verbatim>\<open>toISOString\<close>, which throws
  a \<^verbatim>\<open>RangeError\<close> on an invalid date. The string is the UTC date of the proleptic
  Gregorian calendar, \<^verbatim>\<open>YYYY-MM-DDTHH:mm:ss.sssZ\<close>, the year written with a sign and
  six digits outside \<open>0 .. 9999\<close>.
\<close>

datatype jsError = RangeError

definition dateOfNumber :: "int \<Rightarrow> int option" where
  "dateOfNumber v = TimeClip v"

definition pad :: "nat \<Rightarrow> int \<Rightarrow> string" where
  "pad w n = replicate (w - length (decimal n)) (CHR ''0'') @ decimal n"

text \<open>Year, month and day of a day number counted from 1970-01-01.\<close>

definition civilFromDays :: "int \<Rightarrow> int \<times> int \<times> int" where
  "civilFromDays days =
     (let z = days + 719468;
          era = z div 146097;
          doe = z - era * 146097;
          yoe = (doe - doe div 1460 + doe div 36524 - doe div 146096) div 365;
          y = yoe + era * 400;
          doy = doe - (365 * yoe + yoe div 4 - yoe div 100);
          mp = (5 * doy + 2) div 153;
          d = doy - (153 * mp + 2) div 5 + 1;
          m = (if mp < 10 then mp + 3 else mp - 9)
      in (if m \<le> 2 then y + 1 else y, m, d))"

definition yearString :: "int \<Rightarrow> string" where
  "yearString y =
     (if 0 \<le> y \<and> y \<le> 9999 then pad 4 y
      else (if y < 0 then ''-'' else ''+'') @ pad 6 \<bar>y\<bar>)"

definition isoString :: "int \<Rightarrow> string" where
  "isoString t =
     (let days = t div 86400000;
          ms = t mod 86400000
      in case civilFromDays days of
           (y, m, d) \<Rightarrow>
             yearString y @ ''-'' @ pad 2 m @ ''-'' @ pad 2 d @ ''T''
             @ pad 2 (ms div 3600000) @ '':'' @ pad 2 (ms div 60000 mod 60) @ '':''
             @ pad 2 (ms div 1000 mod 60) @ ''.'' @ pad 3 (ms mod 1000) @ ''Z'')"

definition toISOString :: "int option \<Rightarrow> jsError + string" where
  "toISOString date = (case date of None \<Rightarrow> Inl RangeError | Some t \<Rightarrow> Inr (isoString t))"

text \<open>
  One reader of date strings, used to run the formatter on concrete strings: it reads
  what \<open>isoString\<close> writes for the years \<open>0000 .. 9999\<close> and nothing else.
\<close>

definition digitVal :: "char \<Rightarrow> int option" where
  "digitVal c =
     (if c \<in> set ''0123456789''
      then Some (int (length (takeWhile (\<lambda>x. x \<noteq> c) ''0123456789'')))
      else None)"

fun natOfDigits :: "int \<Rightarrow> string \<Rightarrow> int option" where
  "natOfDigits acc [] = Some acc"
| "natOfDigits acc (c # cs) =
     (case digitVal c of None \<Rightarrow> None | Some v \<Rightarrow> natOfDigits (10 * acc + v) cs)"

definition daysFromCivil :: "int \<Rightarrow> int \<Rightarrow> int \<Rightarrow> int" where
  "daysFromCivil y0 m d =
     (let y = (if m \<le> 2 then y0 - 1 else y0);
          era = y div 400;
          yoe = y - era * 400;
          doy = (153 * (if m > 2 then m - 3 else m + 9) + 2) div 5 + d - 1;
          doe = yoe * 365 + yoe div 4 - yoe div 100 + doy
      in era * 146097 + doe - 719468)"

definition daysInMonth :: "int \<Rightarrow> int \<Rightarrow> int" where
  "daysInMonth y m =
     (if m = 2 then (if y mod 4 = 0 \<and> (y mod 100 \<noteq> 0 \<or> y mod 400 = 0) then 29 else 28)
      else if m = 4 \<or> m = 6 \<or> m = 9 \<or> m = 11 then 30 else 31)"

definition isoRead :: "string \<Rightarrow> int option" where
  "isoRead s =
     (if length s = 24 \<and> s ! 4 = CHR ''-'' \<and> s ! 7 = CHR ''-'' \<and> s ! 10 = CHR ''T''
         \<and> s ! 13 = CHR '':'' \<and> s ! 16 = CHR '':'' \<and> s ! 19 = CHR ''.'' \<and> s ! 23 = CHR ''Z''
      then
        (case (natOfDigits 0 (take 4 s), natOfDigits 0 (take 2 (drop 5 s)),
               natOfDigits 0 (take 2 (drop 8 s)), natOfDigits 0 (take 2 (drop 11 s)),
               natOfDigits 0 (take 2 (drop 14 s)), natOfDigits 0 (take 2 (drop 17 s)),
               natOfDigits 0 (take 3 (drop 20 s))) of
           (Some y, Some m, Some d, Some h, Some mi, Some sec, Some ms) \<Rightarrow>
             if 1 \<le> m \<and> m \<le> 12 \<and> 1 \<le> d \<and> d \<le> daysInMonth y m
                \<and> h < 24 \<and> mi < 60 \<and> sec < 60
             then Some (daysFromCivil y m d * 86400000
                        + h * 3600000 + mi * 60000 + sec * 1000 + ms)
             else None
         | _ \<Rightarrow> None)
      else None)"

section \<open>Session normalizer\<close>

text \<open>
  The callback of \<^verbatim>\<open>data.map\<close> in \<^verbatim>\<open>fetchSessions\<close>. A number is truthy when it
  is there and not zero, a string when it is there and not empty. \<open>nowIso\<close> is what
  \<^verbatim>\<open>new Date().toISOString()\<close> returns when the callback runs, only used when
  \<^verbatim>\<open>endTimeIso\<close> is falsy. The start string is built before the end string, so its
  \<^verbatim>\<open>RangeError\<close> comes first. A product by 1000 that is in the range of a date is
  below \<open>2^53\<close> and so exact as a double.
\<close>

definition processSession ::
  "string \<Rightarrow> (string \<Rightarrow> int option) \<Rightarrow> LivekitSession \<Rightarrow> jsError + CallSession" where
  "processSession nowIso parse session =
     (case (case start_time session of
              None \<Rightarrow> toISOString (dateOfNumber (created_at session * 1000))
            | Some st \<Rightarrow>
                if st \<noteq> 0 then toISOString (dateOfNumber (st * 1000))
                else toISOString (dateOfNumber (created_at session * 1000))) of
        Inl e \<Rightarrow> Inl e
      | Inr startTimeIso \<Rightarrow>
          (case (case end_time session of
                   None \<Rightarrow> Inr None
                 | Some et \<Rightarrow>
                     if et \<noteq> 0
                     then (case toISOString (dateOfNumber (et * 1000)) of
                             Inl e \<Rightarrow> Inl e
                           | Inr endIso \<Rightarrow> Inr (Some endIso))
                     else Inr None) of
             Inl e \<Rightarrow> Inl e
           | Inr endTimeIso \<Rightarrow>
               Inr \<lparr> id_cs = session_id session,
                     roomName = name session,
                     startTime = startTimeIso,
                     endTime = (case endTimeIso of
                                  None \<Rightarrow> nowIso
                                | Some e \<Rightarrow> if e = [] then nowIso else e),
                     duration_cs = formatDuration parse startTimeIso endTimeIso,
                     participantCount = (case num_participants session of
                                           None \<Rightarrow> 0
                                         | Some n \<Rightarrow> if n \<noteq> 0 then n else 0),
                     recordingStatus = deriveRecordingStatus session \<rparr>))"

text \<open>
  \<^verbatim>\<open>data.map\<close>: the callback runs on the elements from left to right and a throw
  ends the whole call. \<open>clock i\<close> is the reading of the clock while element \<open>i\<close> is
  processed.
\<close>

fun processFrom ::
  "(nat \<Rightarrow> string) \<Rightarrow> (string \<Rightarrow> int option) \<Rightarrow> nat \<Rightarrow> LivekitSession list
     \<Rightarrow> jsError + CallSession list" where
  "processFrom clock parse i [] = Inr []"
| "processFrom clock parse i (session # rest) =
     (case processSession (clock i) parse session of
        Inl e \<Rightarrow> Inl e
      | Inr c \<Rightarrow>
          (case processFrom clock parse (Suc i) rest of
             Inl e \<Rightarrow> Inl e
           | Inr cs \<Rightarrow> Inr (c # cs)))"

definition processedSessions ::
  "(nat \<Rightarrow> string) \<Rightarrow> (string \<Rightarrow> int option) \<Rightarrow> LivekitSession list
     \<Rightarrow> jsError + CallSession list" where
  "processedSessions clock parse data = processFrom clock parse 0 data"

section \<open>The sessions route\<close>

text \<open>
  The handler of the API route. What it awaits from outside is given as data: the
  outcome of minting the token, of the request, and of reading the body as text and as
  JSON, each either a thrown value or a result. A thrown value is an \<^verbatim>\<open>Error\<close> with
  its message or something else. \<^verbatim>\<open>ok\<close> is the range \<open>200 .. 299\<close> of the status.
  The decoded payload is forwarded as it is, so its type is a parameter. The URL, the
  query parameters and the headers of the request only select the outcome that comes
  back, and the log lines change nothing: neither is part of the model.
\<close>

datatype thrown = ErrorValue string | OtherValue

record 'd UpstreamResponse =
  status_up :: nat
  statusText :: string
  text_up :: "thrown + string"
  json_up :: "thrown + 'd"

record 'd Outside =
  toJwt :: "thrown + string"
  fetched :: "thrown + 'd UpstreamResponse"

record Env =
  LIVEKIT_API_KEY :: "string option"
  LIVEKIT_API_SECRET :: "string option"
  LIVEKIT_PROJECT_ID :: "string option"
  LIVEKIT_BASE_URL :: "string option"

datatype 'd body = SessionsBody 'd | ErrorBody string "string option"

record 'd ApiResponse =
  statusCode :: nat
  allowHeader :: "string list option"
  payload :: "'d body"

definition ok :: "'d UpstreamResponse \<Rightarrow> bool" where
  "ok r = (200 \<le> status_up r \<and> status_up r \<le> 299)"

definition falsyStr :: "string option \<Rightarrow> bool" where
  "falsyStr v = (case v of None \<Rightarrow> True | Some s \<Rightarrow> s = [])"

definition caught :: "thrown \<Rightarrow> 'd ApiResponse" where
  "caught error =
     (let errorMessage = (case error of ErrorValue m \<Rightarrow> m
                                      | OtherValue \<Rightarrow> ''An unknown error occurred.'')
      in \<lparr> statusCode = 500, allowHeader = None,
           payload = ErrorBody ''Internal server error.'' (Some errorMessage) \<rparr>)"

definition handler :: "string \<Rightarrow> Env \<Rightarrow> 'd Outside \<Rightarrow> 'd ApiResponse" where
  "handler method env outside =
     (if method \<noteq> ''GET''
      then \<lparr> statusCode = 405, allowHeader = Some [''GET''],
             payload = ErrorBody (''Method '' @ method @ '' Not Allowed'') None \<rparr>
      else if falsyStr (LIVEKIT_API_KEY env) \<or> falsyStr (LIVEKIT_API_SECRET env)
              \<or> falsyStr (LIVEKIT_PROJECT_ID env)
      then \<lparr> statusCode = 500, allowHeader = None,
             payload = ErrorBody ''Server configuration error: Missing LiveKit credentials.'' None \<rparr>
      else
        (case toJwt outside of
           Inl error \<Rightarrow> caught error
         | Inr token \<Rightarrow>
             (case fetched outside of
                Inl error \<Rightarrow> caught error
              | Inr livekitResponse \<Rightarrow>
                  if \<not> ok livekitResponse
                  then
                    (case text_up livekitResponse of
                       Inl error \<Rightarrow> caught error
                     | Inr errorBody \<Rightarrow>
                         \<lparr> statusCode = (if status_up livekitResponse \<noteq> 0
                                          then status_up livekitResponse else 502),
                           allowHeader = None,
                           payload = ErrorBody ''Failed to fetch sessions from LiveKit.''
                             (Some (''LiveKit API responded with status ''
                                    @ decimal (int (status_up livekitResponse))
                                    @ ''. Check server logs for more details.'')) \<rparr>)
                  else
                    (case json_up livekitResponse of
                       Inl error \<Rightarrow> caught error
                     | Inr sessionsData \<Rightarrow>
                         \<lparr> statusCode = 200, allowHeader = None,
                           payload = SessionsBody sessionsData \<rparr>))))"

section \<open>Sample records\<close>

text \<open>Records on which the theorems below are run.\<close>

definition sampleEgress :: "string \<Rightarrow> LivekitEgressInfo" where
  "sampleEgress code =
     \<lparr> egress_id = ''EG_1'', room_id = ''RM_1'', room_name = ''demo'', status = code,
       started_at = None, ended_at = None, error_msg = None \<rparr>"

definition sampleSession :: "int \<Rightarrow> LivekitSession" where
  "sampleSession created =
     \<lparr> session_id = ''S_1'', name = ''demo'', created_at = created, last_active = None,
       start_time = None, end_time = None, duration = None, num_participants = None,
       num_active_participants = None, egress_info = None \<rparr>"

definition sampleEnded :: LivekitSession where
  "sampleEnded =
     (sampleSession 1730627000)
       \<lparr> start_time := Some 1730628000, end_time := Some 1730631900,
         num_participants := Some 3,
         egress_info := Some [sampleEgress ''EGRESS_FAILED'', sampleEgress ''EGRESS_COMPLETE''] \<rparr>"

definition sampleEnv :: Env where
  "sampleEnv =
     \<lparr> LIVEKIT_API_KEY = Some ''key'', LIVEKIT_API_SECRET = Some ''secret'',
       LIVEKIT_PROJECT_ID = Some ''p_1'', LIVEKIT_BASE_URL = None \<rparr>"

definition sampleResponse ::
  "nat \<Rightarrow> thrown + string \<Rightarrow> LivekitSession list UpstreamResponse" where
  "sampleResponse code body =
     \<lparr> status_up = code, statusText = '''', text_up = body,
       json_up = Inl (ErrorValue ''Unexpected token'') \<rparr>"

definition sampleOutside ::
  "thrown + LivekitSession list UpstreamResponse \<Rightarrow> LivekitSession list Outside" where
  "sampleOutside outcome = \<lparr> toJwt = Inr ''token'', fetched = outcome \<rparr>"

section \<open>Properties of the recording status\<close>

lemma deriveRecordingStatus_snoc:
  "egress_info session = Some (earlier @ [latest]) \<Longrightarrow>
   deriveRecordingStatus session = statusOfCode (status latest)"
  by (simp add: deriveRecordingStatus_def)

text \<open>
  C1: when the last element of the egress history has status \<^verbatim>\<open>EGRESS_COMPLETE\<close> the
  resolver returns \<open>available\<close>, whatever the earlier entries are; a last status of
  \<^verbatim>\<open>EGRESS_STARTING\<close>, \<^verbatim>\<open>EGRESS_ACTIVE\<close> or \<^verbatim>\<open>EGRESS_ENDING\<close> gives
  \<open>processing\<close>, and one of \<^verbatim>\<open>EGRESS_FAILED\<close>, \<^verbatim>\<open>EGRESS_ABORTED\<close> or
  \<^verbatim>\<open>EGRESS_LIMIT_REACHED\<close> gives \<open>failed\<close>.
\<close>

theorem deriveRecordingStatus_tail:
  assumes "egress_info session = Some (earlier @ [latest])"
  shows "(status latest = ''EGRESS_COMPLETE'' \<longrightarrow> deriveRecordingStatus session = available)
       \<and> (status latest \<in> {''EGRESS_STARTING'', ''EGRESS_ACTIVE'', ''EGRESS_ENDING''}
            \<longrightarrow> deriveRecordingStatus session = processing)
       \<and> (status latest \<in> {''EGRESS_FAILED'', ''EGRESS_ABORTED'', ''EGRESS_LIMIT_REACHED''}
            \<longrightarrow> deriveRecordingStatus session = failed)"
  using deriveRecordingStatus_snoc [OF assms] by (auto simp: statusOfCode_def)

theorem deriveRecordingStatus_tail_witness:
  "deriveRecordingStatus ((sampleSession 1000)
      \<lparr>egress_info := Some [sampleEgress ''EGRESS_FAILED'', sampleEgress ''EGRESS_COMPLETE'']\<rparr>)
     = available
   \<and> deriveRecordingStatus ((sampleSession 1000)
      \<lparr>egress_info := Some [sampleEgress ''EGRESS_COMPLETE'', sampleEgress ''EGRESS_ENDING'']\<rparr>)
     = processing
   \<and> deriveRecordingStatus ((sampleSession 1000)
      \<lparr>egress_info := Some [sampleEgress ''EGRESS_COMPLETE'', sampleEgress ''EGRESS_ABORTED'']\<rparr>)
     = failed"
proof -
  let ?s = "\<lambda>a b. (sampleSession 1000)\<lparr>egress_info := Some [sampleEgress a, sampleEgress b]\<rparr>"
  have h: "egress_info (?s a b) = Some ([sampleEgress a] @ [sampleEgress b])" for a b
    by simp
  have c: "status (sampleEgress b) = b" for b
    by (simp add: sampleEgress_def)
  show ?thesis
    using deriveRecordingStatus_tail [OF h [of "''EGRESS_FAILED''" "''EGRESS_COMPLETE''"]]
      deriveRecordingStatus_tail [OF h [of "''EGRESS_COMPLETE''" "''EGRESS_ENDING''"]]
      deriveRecordingStatus_tail [OF h [of "''EGRESS_COMPLETE''" "''EGRESS_ABORTED''"]]
    by (simp add: c)
qed

text \<open>
  C7: the resolver returns \<open>none\<close> for an absent and for an empty egress history,
  and for every history whose last status is none of the seven known codes. The resolver
  has no failing branch: it is a total function into the four values.
\<close>

theorem deriveRecordingStatus_none:
  "(egress_info session = None \<longrightarrow> deriveRecordingStatus session = none)
   \<and> (egress_info session = Some [] \<longrightarrow> deriveRecordingStatus session = none)
   \<and> (egress_info session = Some (earlier @ [latest])
        \<and> status latest \<notin> {''EGRESS_COMPLETE'', ''EGRESS_STARTING'', ''EGRESS_ACTIVE'',
              ''EGRESS_ENDING'', ''EGRESS_FAILED'', ''EGRESS_ABORTED'', ''EGRESS_LIMIT_REACHED''}
        \<longrightarrow> deriveRecordingStatus session = none)"
proof (intro conjI impI)
  assume "egress_info session = None"
  then show "deriveRecordingStatus session = none"
    by (simp add: deriveRecordingStatus_def)
next
  assume "egress_info session = Some []"
  then show "deriveRecordingStatus session = none"
    by (simp add: deriveRecordingStatus_def)
next
  assume a: "egress_info session = Some (earlier @ [latest])
        \<and> status latest \<notin> {''EGRESS_COMPLETE'', ''EGRESS_STARTING'', ''EGRESS_ACTIVE'',
              ''EGRESS_ENDING'', ''EGRESS_FAILED'', ''EGRESS_ABORTED'', ''EGRESS_LIMIT_REACHED''}"
  then have "deriveRecordingStatus session = statusOfCode (status latest)"
    by (simp add: deriveRecordingStatus_snoc)
  with a show "deriveRecordingStatus session = none"
    by (simp add: statusOfCode_def)
qed

theorem deriveRecordingStatus_none_witness:
  "deriveRecordingStatus (sampleSession 1000) = none
   \<and> deriveRecordingStatus ((sampleSession 1000)\<lparr>egress_info := Some []\<rparr>) = none
   \<and> deriveRecordingStatus ((sampleSession 1000)
        \<lparr>egress_info := Some [sampleEgress ''EGRESS_COMPLETE'', sampleEgress ''EGRESS_PAUSED'']\<rparr>)
       = none"
proof -
  let ?s = "(sampleSession 1000)
     \<lparr>egress_info := Some [sampleEgress ''EGRESS_COMPLETE'', sampleEgress ''EGRESS_PAUSED'']\<rparr>"
  have n: "egress_info (sampleSession 1000) = None"
    by (simp add: sampleSession_def)
  have e: "egress_info ((sampleSession 1000)\<lparr>egress_info := Some []\<rparr>) = Some []"
    by simp
  have h: "egress_info ?s = Some ([sampleEgress ''EGRESS_COMPLETE''] @ [sampleEgress ''EGRESS_PAUSED''])"
    by simp
  have c: "status (sampleEgress ''EGRESS_PAUSED'') = ''EGRESS_PAUSED''"
    by (simp add: sampleEgress_def)
  show ?thesis
    using deriveRecordingStatus_none [of "sampleSession 1000"] n
      deriveRecordingStatus_none [of "(sampleSession 1000)\<lparr>egress_info := Some []\<rparr>"] e
      deriveRecordingStatus_none [of ?s "[sampleEgress ''EGRESS_COMPLETE'']"
        "sampleEgress ''EGRESS_PAUSED''"] h
    by (simp add: c)
qed

text \<open>
  C9: the resolved status depends on the last element only: two histories that are not
  empty and end with the same element resolve to the same status.
\<close>

theorem deriveRecordingStatus_last_only:
  assumes "egress_info s1 = Some xs" and "egress_info s2 = Some ys"
    and "xs \<noteq> []" and "ys \<noteq> []" and "last xs = last ys"
  shows "deriveRecordingStatus s1 = deriveRecordingStatus s2"
proof -
  have "deriveRecordingStatus s1 = statusOfCode (status (last xs))"
    using assms(1,3) by (simp add: deriveRecordingStatus_def last_conv_nth)
  moreover have "deriveRecordingStatus s2 = statusOfCode (status (last ys))"
    using assms(2,4) by (simp add: deriveRecordingStatus_def last_conv_nth)
  ultimately show ?thesis
    using assms(5) by simp
qed

theorem deriveRecordingStatus_last_only_witness:
  "deriveRecordingStatus ((sampleSession 1000)
      \<lparr>egress_info := Some [sampleEgress ''EGRESS_FAILED'', sampleEgress ''EGRESS_ACTIVE'']\<rparr>)
   = deriveRecordingStatus ((sampleSession 2000)
      \<lparr>egress_info := Some [sampleEgress ''EGRESS_COMPLETE'', sampleEgress ''EGRESS_COMPLETE'',
                            sampleEgress ''EGRESS_ACTIVE'']\<rparr>)"
  by (rule deriveRecordingStatus_last_only
        [of _ "[sampleEgress ''EGRESS_FAILED'', sampleEgress ''EGRESS_ACTIVE'']" _
            "[sampleEgress ''EGRESS_COMPLETE'', sampleEgress ''EGRESS_COMPLETE'',
              sampleEgress ''EGRESS_ACTIVE'']"]) simp_all

section \<open>Properties of the duration formatter\<close>

lemma roundEven_near: "d - 1 \<le> roundEven d \<and> roundEven d \<le> d + 1"
  unfolding roundEven_def by presburger

lemma doubleSub_le0: "doubleSub a b \<le> 0 \<longleftrightarrow> a \<le> b"
proof (cases "\<bar>a - b\<bar> \<le> 2 ^ 53")
  case True
  then show ?thesis by (simp add: doubleSub_def Let_def)
next
  case False
  have "a - b - 1 \<le> roundEven (a - b)" "roundEven (a - b) \<le> a - b + 1"
    using roundEven_near [of "a - b"] by simp_all
  with False show ?thesis unfolding doubleSub_def Let_def by simp linarith
qed

lemma digitChar_digit: "0 \<le> n \<Longrightarrow> n < 10 \<Longrightarrow> digitChar n \<in> set ''0123456789''"
  unfolding digitChar_def by (rule nth_mem) simp

lemma decimal_digits: "0 \<le> n \<Longrightarrow> set (decimal n) \<subseteq> set ''0123456789''"
proof (induction n rule: decimal.induct)
  case (1 n)
  show ?case
  proof (cases "n < 10")
    case True
    then show ?thesis using digitChar_digit [of n] "1.prems" by (subst decimal.simps) simp
  next
    case False
    have "digitChar (n mod 10) \<in> set ''0123456789''" by (rule digitChar_digit) simp_all
    moreover have "set (decimal (n div 10)) \<subseteq> set ''0123456789''"
      using False 1 by simp
    ultimately show ?thesis using False by (subst decimal.simps) simp
  qed
qed

lemma decimal_no_h: "0 \<le> n \<Longrightarrow> CHR ''h'' \<notin> set (decimal n)"
  using decimal_digits [of n] by auto

lemma minutes_eq: "(d - d div 3600000 * 3600000) div 60000 = d div 60000 mod 60" for d :: int
proof -
  have "d - d div 3600000 * 3600000 = d mod 3600000"
    by (simp add: minus_div_mult_eq_mod)
  also have "d mod 3600000 = 60000 * (d div 60000 mod 60) + d mod 60000"
    using zmod_zmult2_eq [of 60 d 60000] by simp
  finally show ?thesis by simp
qed

lemma formatDuration_body:
  assumes "endIso \<noteq> []" and "dateOfString parse startIso = Some s"
    and "dateOfString parse endIso = Some e" and "s < e"
  shows "formatDuration parse startIso (Some endIso) =
     (if doubleSub e s div 3600000 = 0
      then decimal (doubleSub e s div 60000 mod 60) @ ''m''
      else decimal (doubleSub e s div 3600000) @ ''h ''
           @ decimal (doubleSub e s div 60000 mod 60) @ ''m'')"
proof -
  have pos: "0 < doubleSub e s"
    using assms(4) doubleSub_le0 [of e s] by simp
  then have h: "0 \<le> doubleSub e s div 3600000"
    by simp
  show ?thesis
    using assms(1-3) pos h
    by (simp add: formatDuration_def Let_def minutes_eq)
qed

lemma decimal_small:
  "decimal 0 = ''0''" "decimal 1 = ''1''" "decimal 2 = ''2''" "decimal 5 = ''5''"
  by (simp_all add: decimal.simps digitChar_def)

lemma isoRead_samples:
  "dateOfString isoRead ''2024-11-03T10:00:00.000Z'' = Some 1730628000000"
  "dateOfString isoRead ''2024-11-03T09:55:00.000Z'' = Some 1730627700000"
  "dateOfString isoRead ''2024-11-03T11:05:00.000Z'' = Some 1730631900000"
  "dateOfString isoRead ''2024-11-03T12:00:00.000Z'' = Some 1730635200000"
  "dateOfString isoRead ''2024-11-03T10:05:00.000Z'' = Some 1730628300000"
  by code_simp+

text \<open>
  C5: the formatter returns \<^verbatim>\<open>Ongoing\<close> when the end is absent, and \<^verbatim>\<open>0m\<close> when the
  end is present (a string that is not empty, holding a valid date) and not after the
  start, the two being equal included. The statement holds for any reader of date strings.
\<close>

theorem formatDuration_ongoing_zero:
  "formatDuration parse startIso None = ''Ongoing''
   \<and> (endIso \<noteq> [] \<and> dateOfString parse startIso = Some s
        \<and> dateOfString parse endIso = Some e \<and> e \<le> s
      \<longrightarrow> formatDuration parse startIso (Some endIso) = ''0m'')"
proof (intro conjI impI)
  show "formatDuration parse startIso None = ''Ongoing''"
    by (simp add: formatDuration_def)
next
  assume a: "endIso \<noteq> [] \<and> dateOfString parse startIso = Some s
        \<and> dateOfString parse endIso = Some e \<and> e \<le> s"
  then have "doubleSub e s \<le> 0"
    by (simp add: doubleSub_le0)
  with a show "formatDuration parse startIso (Some endIso) = ''0m''"
    by (simp add: formatDuration_def Let_def)
qed

theorem formatDuration_ongoing_zero_witness:
  "formatDuration isoRead ''2024-11-03T10:00:00.000Z'' None = ''Ongoing''
   \<and> formatDuration isoRead ''2024-11-03T10:00:00.000Z'' (Some ''2024-11-03T10:00:00.000Z'') = ''0m''
   \<and> formatDuration isoRead ''2024-11-03T10:00:00.000Z'' (Some ''2024-11-03T09:55:00.000Z'') = ''0m''"
  using formatDuration_ongoing_zero [of isoRead "''2024-11-03T10:00:00.000Z''"
      "''2024-11-03T10:00:00.000Z''" 1730628000000 1730628000000]
    formatDuration_ongoing_zero [of isoRead "''2024-11-03T10:00:00.000Z''"
      "''2024-11-03T09:55:00.000Z''" 1730628000000 1730627700000]
  by (simp add: isoRead_samples)

text \<open>
  C6: when the end is after the start, the formatter prints the whole hours and the whole
  minutes of the elapsed time, and the hour part, with its letter \<^verbatim>\<open>h\<close>, exactly when
  the hours are not zero. The elapsed time is the difference as a double, which is the
  exact difference up to \<open>2^53\<close> milliseconds. Five minutes give \<^verbatim>\<open>5m\<close>, sixty-five
  \<^verbatim>\<open>1h 5m\<close> and two hours \<^verbatim>\<open>2h 0m\<close>.
\<close>

theorem formatDuration_hours_minutes:
  assumes "endIso \<noteq> []" and "dateOfString parse startIso = Some s"
    and "dateOfString parse endIso = Some e" and "s < e"
  shows "formatDuration parse startIso (Some endIso) =
           (if doubleSub e s div 3600000 = 0
            then decimal (doubleSub e s div 60000 mod 60) @ ''m''
            else decimal (doubleSub e s div 3600000) @ ''h ''
                 @ decimal (doubleSub e s div 60000 mod 60) @ ''m'')
       \<and> (CHR ''h'' \<in> set (formatDuration parse startIso (Some endIso))
            \<longleftrightarrow> doubleSub e s div 3600000 \<noteq> 0)
       \<and> 0 < doubleSub e s
       \<and> (e - s \<le> 2 ^ 53 \<longrightarrow> doubleSub e s = e - s)
       \<and> (e = s + 5 * 60000 \<longrightarrow> formatDuration parse startIso (Some endIso) = ''5m'')
       \<and> (e = s + 65 * 60000 \<longrightarrow> formatDuration parse startIso (Some endIso) = ''1h 5m'')
       \<and> (e = s + 120 * 60000 \<longrightarrow> formatDuration parse startIso (Some endIso) = ''2h 0m'')"
proof -
  note body = formatDuration_body [OF assms]
  have pos: "0 < doubleSub e s"
    using assms(4) doubleSub_le0 [of e s] by simp
  then have nonneg: "0 \<le> doubleSub e s div 60000" "0 \<le> doubleSub e s div 60000 mod 60"
    by simp_all
  have letter: "CHR ''h'' \<in> set (formatDuration parse startIso (Some endIso))
            \<longleftrightarrow> doubleSub e s div 3600000 \<noteq> 0"
    unfolding body using decimal_no_h [OF nonneg(1)] decimal_no_h [OF nonneg(2)] by simp
  have exact: "e - s \<le> 2 ^ 53 \<longrightarrow> doubleSub e s = e - s"
    using assms(4) by (simp add: doubleSub_def Let_def)
  have five: "formatDuration parse startIso (Some endIso) = ''5m''" if "e = s + 5 * 60000"
    unfolding body using that by (simp add: doubleSub_def decimal_small)
  have sixtyfive: "formatDuration parse startIso (Some endIso) = ''1h 5m''" if "e = s + 65 * 60000"
    unfolding body using that by (simp add: doubleSub_def decimal_small)
  have twohours: "formatDuration parse startIso (Some endIso) = ''2h 0m''" if "e = s + 120 * 60000"
    unfolding body using that by (simp add: doubleSub_def decimal_small)
  show ?thesis
    using body letter pos exact five sixtyfive twohours by blast
qed

theorem formatDuration_hours_minutes_witness:
  "formatDuration isoRead ''2024-11-03T10:00:00.000Z'' (Some ''2024-11-03T10:05:00.000Z'') = ''5m''
   \<and> formatDuration isoRead ''2024-11-03T10:00:00.000Z'' (Some ''2024-11-03T11:05:00.000Z'') = ''1h 5m''
   \<and> formatDuration isoRead ''2024-11-03T10:00:00.000Z'' (Some ''2024-11-03T12:00:00.000Z'') = ''2h 0m''"
proof -
  have ne: "''2024-11-03T10:05:00.000Z'' \<noteq> []" "''2024-11-03T11:05:00.000Z'' \<noteq> []"
    "''2024-11-03T12:00:00.000Z'' \<noteq> []"
    by simp_all
  have lt: "(1730628000000::int) < 1730628300000" "(1730628000000::int) < 1730631900000"
    "(1730628000000::int) < 1730635200000"
    by simp_all
  have eq: "(1730628300000::int) = 1730628000000 + 5 * 60000"
    "(1730631900000::int) = 1730628000000 + 65 * 60000"
    "(1730635200000::int) = 1730628000000 + 120 * 60000"
    by simp_all
  show ?thesis
    using formatDuration_hours_minutes [OF ne(1) isoRead_samples(1) isoRead_samples(5) lt(1)]
      formatDuration_hours_minutes [OF ne(2) isoRead_samples(1) isoRead_samples(3) lt(2)]
      formatDuration_hours_minutes [OF ne(3) isoRead_samples(1) isoRead_samples(4) lt(3)]
      eq
    by blast
qed

section \<open>Properties of the normalizer\<close>

lemma isoString_samples:
  "isoString 1000000 = ''1970-01-01T00:16:40.000Z''"
  by code_simp

lemma toISOString_inRange:
  "\<bar>v\<bar> \<le> maxTime \<Longrightarrow> toISOString (dateOfNumber v) = Inr (isoString v)"
  by (simp add: toISOString_def dateOfNumber_def TimeClip_def)

lemma toISOString_outOfRange:
  "\<not> \<bar>v\<bar> \<le> maxTime \<Longrightarrow> toISOString (dateOfNumber v) = Inl RangeError"
  by (simp add: toISOString_def dateOfNumber_def TimeClip_def)

text \<open>
  C2, as the code has it: for a record whose \<^verbatim>\<open>start_time\<close>, \<^verbatim>\<open>end_time\<close> and
  \<^verbatim>\<open>num_participants\<close> are all absent, the normalizer returns a session exactly when
  \<^verbatim>\<open>created_at * 1000\<close> is a time value of a valid date, at most \<open>8.64e15\<close> in
  magnitude. The session then has the instant of \<^verbatim>\<open>created_at\<close> as its start, the
  duration \<^verbatim>\<open>Ongoing\<close> (the formatter is given the absent end; the emitted end is the
  current time) and the participant count 0. Outside that range the normalizer throws the
  \<^verbatim>\<open>RangeError\<close> of \<^verbatim>\<open>toISOString\<close>.
\<close>

theorem processSession_absent_fields:
  assumes "start_time session = None" and "end_time session = None"
    and "num_participants session = None"
  shows "(\<bar>created_at session * 1000\<bar> \<le> maxTime \<longrightarrow>
            (\<exists>c. processSession nowIso parse session = Inr c
               \<and> startTime c = isoString (created_at session * 1000)
               \<and> endTime c = nowIso
               \<and> duration_cs c = ''Ongoing''
               \<and> participantCount c = 0))
       \<and> (\<not> \<bar>created_at session * 1000\<bar> \<le> maxTime \<longrightarrow>
            processSession nowIso parse session = Inl RangeError)"
proof (intro conjI impI)
  assume "\<bar>created_at session * 1000\<bar> \<le> maxTime"
  then have "toISOString (dateOfNumber (created_at session * 1000))
      = Inr (isoString (created_at session * 1000))"
    by (rule toISOString_inRange)
  with assms show "\<exists>c. processSession nowIso parse session = Inr c
               \<and> startTime c = isoString (created_at session * 1000)
               \<and> endTime c = nowIso
               \<and> duration_cs c = ''Ongoing''
               \<and> participantCount c = 0"
    by (simp add: processSession_def formatDuration_def)
next
  assume "\<not> \<bar>created_at session * 1000\<bar> \<le> maxTime"
  then have "toISOString (dateOfNumber (created_at session * 1000)) = Inl RangeError"
    by (rule toISOString_outOfRange)
  with assms show "processSession nowIso parse session = Inl RangeError"
    by (simp add: processSession_def)
qed

theorem processSession_absent_fields_witness:
  "(\<exists>c. processSession ''2024-11-03T10:00:00.000Z'' isoRead (sampleSession 1000) = Inr c
      \<and> startTime c = ''1970-01-01T00:16:40.000Z''
      \<and> endTime c = ''2024-11-03T10:00:00.000Z''
      \<and> duration_cs c = ''Ongoing''
      \<and> participantCount c = 0)
   \<and> processSession ''2024-11-03T10:00:00.000Z'' isoRead (sampleSession 8640000000001)
       = Inl RangeError"
proof -
  have a: "start_time (sampleSession n) = None" "end_time (sampleSession n) = None"
    "num_participants (sampleSession n) = None" for n
    by (simp_all add: sampleSession_def)
  have r: "\<bar>created_at (sampleSession 1000) * 1000\<bar> \<le> maxTime"
    "\<not> \<bar>created_at (sampleSession 8640000000001) * 1000\<bar> \<le> maxTime"
    by (simp_all add: sampleSession_def maxTime_def)
  have c: "created_at (sampleSession 1000) * 1000 = 1000000"
    by (simp add: sampleSession_def)
  show ?thesis
    using processSession_absent_fields [OF a, of 1000 "''2024-11-03T10:00:00.000Z''" isoRead]
      processSession_absent_fields [OF a, of 8640000000001 "''2024-11-03T10:00:00.000Z''" isoRead]
      r
    unfolding c isoString_samples by blast
qed

text \<open>
  The normalizer is not total on every record with these fields absent: a record whose
  \<^verbatim>\<open>created_at\<close> is a count of microseconds, not of seconds, is beyond the range of
  \<^verbatim>\<open>Date\<close> and its normalization throws.
\<close>

theorem processSession_absent_fields_counterexample:
  "start_time (sampleSession 1730628000000000) = None
   \<and> end_time (sampleSession 1730628000000000) = None
   \<and> num_participants (sampleSession 1730628000000000) = None
   \<and> processSession ''2024-11-03T10:00:00.000Z'' isoRead (sampleSession 1730628000000000)
       = Inl RangeError"
  by (simp add: processSession_def sampleSession_def toISOString_outOfRange maxTime_def)

text \<open>
  C10: a \<^verbatim>\<open>start_time\<close> or an \<^verbatim>\<open>end_time\<close> equal to 0 is falsy and treated as an
  absent field: the normalizer gives the same result as on the record without the field.
  With \<^verbatim>\<open>start_time = 0\<close> the start is the instant of \<^verbatim>\<open>created_at\<close>; with
  \<^verbatim>\<open>end_time = 0\<close> the duration is \<^verbatim>\<open>Ongoing\<close> and the emitted end is the current
  time.
\<close>

theorem processSession_zero_is_absent:
  "(start_time session = Some 0 \<longrightarrow>
      processSession nowIso parse session
        = processSession nowIso parse (session\<lparr>start_time := None\<rparr>))
   \<and> (end_time session = Some 0 \<longrightarrow>
      processSession nowIso parse session
        = processSession nowIso parse (session\<lparr>end_time := None\<rparr>))
   \<and> (start_time session = Some 0 \<and> processSession nowIso parse session = Inr c \<longrightarrow>
      startTime c = isoString (created_at session * 1000))
   \<and> (end_time session = Some 0 \<and> processSession nowIso parse session = Inr c \<longrightarrow>
      duration_cs c = ''Ongoing'' \<and> endTime c = nowIso)
   \<and> (start_time session = Some 0 \<and> end_time session = Some 0
        \<and> \<bar>created_at session * 1000\<bar> \<le> maxTime \<longrightarrow>
      (\<exists>c'. processSession nowIso parse session = Inr c'))"
proof -
  have startAbsent: "processSession nowIso parse session
        = processSession nowIso parse (session\<lparr>start_time := None\<rparr>)"
    if "start_time session = Some 0"
    using that
    by (simp add: processSession_def deriveRecordingStatus_def split: sum.splits option.splits)
  have endAbsent: "processSession nowIso parse session
        = processSession nowIso parse (session\<lparr>end_time := None\<rparr>)"
    if "end_time session = Some 0"
    using that
    by (simp add: processSession_def deriveRecordingStatus_def split: sum.splits option.splits)
  have startFrom: "startTime c = isoString (created_at session * 1000)"
    if "start_time session = Some 0 \<and> processSession nowIso parse session = Inr c"
    using that
    by (auto simp: processSession_def toISOString_def dateOfNumber_def TimeClip_def
          split: sum.splits option.splits if_splits)
  have ongoing: "duration_cs c = ''Ongoing'' \<and> endTime c = nowIso"
    if "end_time session = Some 0 \<and> processSession nowIso parse session = Inr c"
    using that
    by (auto simp: processSession_def formatDuration_def split: sum.splits)
  have returns: "\<exists>c'. processSession nowIso parse session = Inr c'"
    if a: "start_time session = Some 0 \<and> end_time session = Some 0
        \<and> \<bar>created_at session * 1000\<bar> \<le> maxTime"
  proof -
    from a have "toISOString (dateOfNumber (created_at session * 1000))
        = Inr (isoString (created_at session * 1000))"
      by (simp add: toISOString_inRange)
    with a show ?thesis
      by (simp add: processSession_def)
  qed
  show ?thesis
    using startAbsent endAbsent startFrom ongoing returns by blast
qed

theorem processSession_zero_is_absent_witness:
  "\<exists>c. processSession ''2024-11-03T10:00:00.000Z'' isoRead
          ((sampleSession 1000)\<lparr>start_time := Some 0, end_time := Some 0\<rparr>) = Inr c
      \<and> startTime c = ''1970-01-01T00:16:40.000Z''
      \<and> duration_cs c = ''Ongoing''
      \<and> endTime c = ''2024-11-03T10:00:00.000Z''"
proof -
  let ?s = "(sampleSession 1000)\<lparr>start_time := Some 0, end_time := Some 0\<rparr>"
  have a: "start_time ?s = Some 0" "end_time ?s = Some 0"
    by simp_all
  have r: "\<bar>created_at ?s * 1000\<bar> \<le> maxTime"
    by (simp add: sampleSession_def maxTime_def)
  have c: "created_at ?s * 1000 = 1000000"
    by (simp add: sampleSession_def)
  from processSession_zero_is_absent [of ?s "''2024-11-03T10:00:00.000Z''" isoRead] a r
  obtain c' where run: "processSession ''2024-11-03T10:00:00.000Z'' isoRead ?s = Inr c'"
    by blast
  show ?thesis
    using processSession_zero_is_absent [of ?s "''2024-11-03T10:00:00.000Z''" isoRead c'] a run
    unfolding c isoString_samples by blast
qed

lemma processFrom_Inr_iff:
  "processFrom clock parse k data = Inr out \<longleftrightarrow>
     length out = length data
     \<and> (\<forall>i<length data. processSession (clock (k + i)) parse (data ! i) = Inr (out ! i))"
proof (induction data arbitrary: k out)
  case Nil
  show ?case by auto
next
  case (Cons session rest)
  show ?case
  proof (cases out)
    case Nil
    then show ?thesis by (auto split: sum.splits)
  next
    case (Cons c cs)
    have "processFrom clock parse k (session # rest) = Inr (c # cs) \<longleftrightarrow>
        processSession (clock k) parse session = Inr c
        \<and> processFrom clock parse (Suc k) rest = Inr cs"
      by (auto split: sum.splits)
    also have "\<dots> \<longleftrightarrow> processSession (clock k) parse session = Inr c
        \<and> length cs = length rest
        \<and> (\<forall>i<length rest. processSession (clock (Suc k + i)) parse (rest ! i) = Inr (cs ! i))"
      using Cons.IH [of "Suc k" cs] by simp
    also have "\<dots> \<longleftrightarrow> length (c # cs) = length (session # rest)
        \<and> (\<forall>i<length (session # rest).
              processSession (clock (k + i)) parse ((session # rest) ! i) = Inr ((c # cs) ! i))"
      by (auto simp: less_Suc_eq_0_disj)
    finally show ?thesis using Cons by simp
  qed
qed

lemma processFrom_total:
  "(\<forall>i<length data. \<exists>c. processSession (clock (k + i)) parse (data ! i) = Inr c)
   \<Longrightarrow> \<exists>out. processFrom clock parse k data = Inr out"
proof (induction data arbitrary: k)
  case Nil
  show ?case by simp
next
  case (Cons session rest)
  from Cons.prems obtain c where c: "processSession (clock k) parse session = Inr c"
    by fastforce
  have "\<forall>i<length rest. \<exists>c. processSession (clock (Suc k + i)) parse (rest ! i) = Inr c"
    using Cons.prems by fastforce
  then obtain cs where "processFrom clock parse (Suc k) rest = Inr cs"
    using Cons.IH by blast
  with c show ?case by simp
qed

lemma processFrom_fails:
  assumes "i < length data" and "processSession (clock (k + i)) parse (data ! i) = Inl e"
  shows "processFrom clock parse k data = Inl RangeError"
proof (cases "processFrom clock parse k data")
  case (Inl e')
  then show ?thesis by (cases e') simp
next
  case (Inr out)
  then have "processSession (clock (k + i)) parse (data ! i) = Inr (out ! i)"
    using assms(1) processFrom_Inr_iff [of clock parse k data out] by blast
  with assms(2) show ?thesis by simp
qed

text \<open>
  C8, as the code has it: the normalizer maps the fetched sequence element by element.
  When every record normalizes there is an output, and a sequence \<open>out\<close> is the output
  exactly when it has the length of the input and its \<open>i\<close>-th element is the
  normalization of the \<open>i\<close>-th input: nothing is reordered, dropped or merged, and the
  empty sequence maps to the empty sequence. When the normalization of some record
  throws, the whole call throws the \<^verbatim>\<open>RangeError\<close> and there is no output at all.
\<close>

theorem processedSessions_elementwise:
  "(processedSessions clock parse data = Inr out \<longleftrightarrow>
      length out = length data
      \<and> (\<forall>i<length data. processSession (clock i) parse (data ! i) = Inr (out ! i)))
   \<and> ((\<forall>i<length data. \<exists>c. processSession (clock i) parse (data ! i) = Inr c) \<longrightarrow>
        (\<exists>out'. processedSessions clock parse data = Inr out'))
   \<and> ((\<exists>i<length data. \<exists>e. processSession (clock i) parse (data ! i) = Inl e) \<longrightarrow>
        processedSessions clock parse data = Inl RangeError)
   \<and> processedSessions clock parse [] = Inr []"
proof -
  have fails: "processedSessions clock parse data = Inl RangeError"
    if "\<exists>i<length data. \<exists>e. processSession (clock i) parse (data ! i) = Inl e"
    using that processFrom_fails [of _ data clock 0 parse]
    by (auto simp: processedSessions_def)
  show ?thesis
    using processFrom_Inr_iff [of clock parse 0 data out]
      processFrom_total [of data clock 0 parse] fails
    by (simp add: processedSessions_def)
qed

lemma sample_runs:
  "processSession ''2024-11-03T12:00:00.000Z'' isoRead (sampleSession 1000) =
     Inr \<lparr> id_cs = ''S_1'', roomName = ''demo'', startTime = ''1970-01-01T00:16:40.000Z'',
           endTime = ''2024-11-03T12:00:00.000Z'', duration_cs = ''Ongoing'',
           participantCount = 0, recordingStatus = none \<rparr>"
  "processSession ''2024-11-03T12:00:00.000Z'' isoRead sampleEnded =
     Inr \<lparr> id_cs = ''S_1'', roomName = ''demo'', startTime = ''2024-11-03T10:00:00.000Z'',
           endTime = ''2024-11-03T11:05:00.000Z'', duration_cs = ''1h 5m'',
           participantCount = 3, recordingStatus = available \<rparr>"
  by code_simp+

theorem processedSessions_elementwise_witness:
  "processedSessions (\<lambda>i. ''2024-11-03T12:00:00.000Z'') isoRead [sampleSession 1000, sampleEnded] =
     Inr [\<lparr> id_cs = ''S_1'', roomName = ''demo'', startTime = ''1970-01-01T00:16:40.000Z'',
             endTime = ''2024-11-03T12:00:00.000Z'', duration_cs = ''Ongoing'',
             participantCount = 0, recordingStatus = none \<rparr>,
          \<lparr> id_cs = ''S_1'', roomName = ''demo'', startTime = ''2024-11-03T10:00:00.000Z'',
             endTime = ''2024-11-03T11:05:00.000Z'', duration_cs = ''1h 5m'',
             participantCount = 3, recordingStatus = available \<rparr>]
   \<and> processedSessions (\<lambda>i. ''2024-11-03T12:00:00.000Z'') isoRead
         [sampleEnded, sampleSession 8640000000001] = Inl RangeError"
  (is "processedSessions ?clock isoRead ?data = Inr ?out
       \<and> processedSessions ?clock isoRead ?bad = Inl RangeError")
proof -
  have len: "length ?out = length ?data"
    by simp
  have each: "\<forall>i<length ?data. processSession (?clock i) isoRead (?data ! i) = Inr (?out ! i)"
    using sample_runs by (simp add: less_Suc_eq_0_disj)
  have "processSession (?clock 1) isoRead (?bad ! 1) = Inl RangeError"
    by (simp add: processSession_def sampleSession_def toISOString_outOfRange maxTime_def)
  then have some: "\<exists>i<length ?bad. \<exists>e. processSession (?clock i) isoRead (?bad ! i) = Inl e"
    by (intro exI [of _ 1]) simp
  show ?thesis
    using processedSessions_elementwise [of ?clock isoRead ?data ?out]
      processedSessions_elementwise [of ?clock isoRead ?bad] len each some
    by blast
qed

text \<open>
  One record beyond the range of \<^verbatim>\<open>Date\<close> ends the call: the record before it, which
  normalizes, is not in any output, since there is none.
\<close>

theorem processedSessions_batch_counterexample:
  "processedSessions (\<lambda>i. ''2024-11-03T12:00:00.000Z'') isoRead
     [sampleSession 1000, sampleSession 1730628000000000] = Inl RangeError"
  by code_simp

section \<open>Properties of the sessions route\<close>

lemma sampleEnv_truthy:
  "\<not> falsyStr (LIVEKIT_API_KEY sampleEnv)" "\<not> falsyStr (LIVEKIT_API_SECRET sampleEnv)"
  "\<not> falsyStr (LIVEKIT_PROJECT_ID sampleEnv)"
  by (simp_all add: sampleEnv_def falsyStr_def)

text \<open>
  C3, as the code has it: every response of the route that is not the forwarded sessions
  has a status outside \<open>200 .. 299\<close> and an error payload with an \<^verbatim>\<open>error\<close> string.
  The payload also has a \<^verbatim>\<open>details\<close> string on the failures of the upstream exchange
  (a status that is not 2xx, a thrown request, an undecodable body, a token that cannot be
  minted), and has none exactly on a method other than \<^verbatim>\<open>GET\<close> and on missing
  credentials. The sessions are forwarded, with status 200, exactly when the request is a
  \<^verbatim>\<open>GET\<close>, the credentials are there and the upstream exchange succeeds.
\<close>

theorem handler_failure_paths:
  "(case payload (handler method env outside) of
      SessionsBody d \<Rightarrow> statusCode (handler method env outside) = 200
    | ErrorBody e details \<Rightarrow>
        \<not> (200 \<le> statusCode (handler method env outside)
            \<and> statusCode (handler method env outside) \<le> 299)
        \<and> (details = None \<longleftrightarrow>
             method \<noteq> ''GET'' \<or> falsyStr (LIVEKIT_API_KEY env)
             \<or> falsyStr (LIVEKIT_API_SECRET env) \<or> falsyStr (LIVEKIT_PROJECT_ID env)))
   \<and> ((\<exists>d. payload (handler method env outside) = SessionsBody d) \<longleftrightarrow>
        method = ''GET'' \<and> \<not> falsyStr (LIVEKIT_API_KEY env)
        \<and> \<not> falsyStr (LIVEKIT_API_SECRET env) \<and> \<not> falsyStr (LIVEKIT_PROJECT_ID env)
        \<and> (\<exists>token r d. toJwt outside = Inr token \<and> fetched outside = Inr r \<and> ok r
               \<and> json_up r = Inr d))"
  by (auto simp: handler_def caught_def ok_def Let_def split: sum.splits)

theorem handler_failure_paths_witness:
  "(\<exists>e. payload (handler ''GET'' (sampleEnv\<lparr>LIVEKIT_PROJECT_ID := Some []\<rparr>)
             (sampleOutside (Inl OtherValue))) = ErrorBody e None)
   \<and> (\<exists>e d. payload (handler ''GET'' sampleEnv (sampleOutside (Inl OtherValue)))
               = ErrorBody e (Some d))
   \<and> \<not> (200 \<le> statusCode (handler ''GET'' sampleEnv (sampleOutside (Inl OtherValue)))
         \<and> statusCode (handler ''GET'' sampleEnv (sampleOutside (Inl OtherValue))) \<le> 299)"
proof -
  let ?o = "sampleOutside (Inl OtherValue)"
  have f: "fetched ?o = Inl OtherValue"
    by (simp add: sampleOutside_def)
  have p: "falsyStr (LIVEKIT_PROJECT_ID (sampleEnv\<lparr>LIVEKIT_PROJECT_ID := Some []\<rparr>))"
    by (simp add: falsyStr_def)
  have g: "''GET'' = ''GET''"
    by simp
  show ?thesis
    using handler_failure_paths [of "''GET''" "sampleEnv\<lparr>LIVEKIT_PROJECT_ID := Some []\<rparr>" ?o]
      handler_failure_paths [of "''GET''" sampleEnv ?o] f p sampleEnv_truthy
    by (auto split: body.splits)
qed

text \<open>
  The failure on missing credentials answers 500 with an \<^verbatim>\<open>error\<close> string and no
  \<^verbatim>\<open>details\<close>.
\<close>

theorem handler_missing_credentials_counterexample:
  "statusCode (handler ''GET'' (sampleEnv\<lparr>LIVEKIT_API_KEY := None\<rparr>)
       (sampleOutside (Inr (sampleResponse 200 (Inr ''{}''))))) = 500
   \<and> payload (handler ''GET'' (sampleEnv\<lparr>LIVEKIT_API_KEY := None\<rparr>)
       (sampleOutside (Inr (sampleResponse 200 (Inr ''{}'')))))
     = ErrorBody ''Server configuration error: Missing LiveKit credentials.'' None"
  by (simp add: handler_def falsyStr_def)

text \<open>
  C4, as the code has it: for an upstream response whose status is not 2xx and whose body
  can be read, the route answers with that same status, or with 502 when the status is
  0, and with an error payload naming the status. When reading the body throws, the route
  answers as for any caught exception, with status 500. In both cases the answer is not
  2xx and carries no sessions.
\<close>

theorem handler_upstream_error:
  assumes "\<not> falsyStr (LIVEKIT_API_KEY env)" and "\<not> falsyStr (LIVEKIT_API_SECRET env)"
    and "\<not> falsyStr (LIVEKIT_PROJECT_ID env)"
    and "toJwt outside = Inr token" and "fetched outside = Inr r" and "\<not> ok r"
  shows "(text_up r = Inr errorBody \<longrightarrow>
            statusCode (handler ''GET'' env outside)
              = (if status_up r = 0 then 502 else status_up r)
            \<and> payload (handler ''GET'' env outside)
              = ErrorBody ''Failed to fetch sessions from LiveKit.''
                  (Some (''LiveKit API responded with status '' @ decimal (int (status_up r))
                         @ ''. Check server logs for more details.'')))
       \<and> (text_up r = Inl error \<longrightarrow> handler ''GET'' env outside = caught error)
       \<and> (\<forall>d. payload (handler ''GET'' env outside) \<noteq> SessionsBody d)
       \<and> \<not> (200 \<le> statusCode (handler ''GET'' env outside)
             \<and> statusCode (handler ''GET'' env outside) \<le> 299)"
  using assms
  by (auto simp: handler_def caught_def ok_def split: sum.splits)

lemma decimal_404: "decimal 404 = ''404''"
  by code_simp

theorem handler_upstream_error_witness:
  "statusCode (handler ''GET'' sampleEnv (sampleOutside (Inr (sampleResponse 404 (Inr ''gone''))))) = 404
   \<and> payload (handler ''GET'' sampleEnv (sampleOutside (Inr (sampleResponse 404 (Inr ''gone'')))))
      = ErrorBody ''Failed to fetch sessions from LiveKit.''
          (Some ''LiveKit API responded with status 404. Check server logs for more details.'')
   \<and> statusCode (handler ''GET'' sampleEnv (sampleOutside (Inr (sampleResponse 0 (Inr ''gone''))))) = 502
   \<and> handler ''GET'' sampleEnv (sampleOutside (Inr (sampleResponse 500 (Inl OtherValue))))
      = caught OtherValue"
proof -
  let ?r = "\<lambda>c. sampleResponse c (Inr ''gone'')"
  let ?q = "sampleResponse 500 (Inl OtherValue)"
  have j: "toJwt (sampleOutside x) = Inr ''token''" for x
    by (simp add: sampleOutside_def)
  have f: "fetched (sampleOutside (Inr r)) = Inr r" for r
    by (simp add: sampleOutside_def)
  have n: "\<not> ok (?r 404)" "\<not> ok (?r 0)" "\<not> ok ?q"
    by (simp_all add: ok_def sampleResponse_def)
  have t: "text_up (?r c) = Inr ''gone''" "status_up (?r c) = c" "text_up ?q = Inl OtherValue"
    for c
    by (simp_all add: sampleResponse_def)
  show ?thesis
    using handler_upstream_error [OF sampleEnv_truthy j f n(1), where errorBody = "''gone''"]
      handler_upstream_error [OF sampleEnv_truthy j f n(2), where errorBody = "''gone''"]
      handler_upstream_error [OF sampleEnv_truthy j f n(3), where error = OtherValue]
    by (simp add: t decimal_404)
qed

text \<open>
  A 404 of the upstream whose body cannot be read is answered with 500, not with 404.
\<close>

theorem handler_body_read_counterexample:
  "\<not> ok (sampleResponse 404 (Inl (ErrorValue ''terminated'')))
   \<and> statusCode (handler ''GET'' sampleEnv
        (sampleOutside (Inr (sampleResponse 404 (Inl (ErrorValue ''terminated'')))))) = 500"
  by (simp add: handler_def caught_def ok_def sampleEnv_truthy sampleOutside_def
        sampleResponse_def)

end
